theory Spec2Isabelle
  imports Main "HOL-Library.Word"
begin

unbundle bit_operations_syntax

section \<open>JavaScript arrays\<close>

text \<open>
  The grids of \<^verbatim>\<open>world.js\<close> are JavaScript arrays of arrays. Reading an array at an
  index that is negative, beyond its length, or a hole gives \<^verbatim>\<open>undefined\<close>; reading a
  property of \<^verbatim>\<open>undefined\<close> throws a TypeError. An array is a list of optional
  elements (\<open>None\<close> is a hole), a read gives \<open>None\<close> for \<^verbatim>\<open>undefined\<close>, and the
  throw is a value of \<open>js_error\<close>. Coordinates are integers.
\<close>

datatype js_error = TypeError

type_synonym 'a js_array = "'a option list"

definition js_index :: "'a js_array \<Rightarrow> int \<Rightarrow> 'a option" where
  "js_index a i = (if 0 \<le> i \<and> i < int (length a) then a ! nat i else None)"

text \<open>\<^verbatim>\<open>a[i] = v\<close> for \<open>i \<ge> 0\<close>: an index beyond the length extends the array with holes.\<close>

definition js_assign :: "'a js_array \<Rightarrow> nat \<Rightarrow> 'a \<Rightarrow> 'a js_array" where
  "js_assign a i v =
     (if i < length a then a[i := Some v]
      else a @ replicate (i - length a) None @ [Some v])"

section \<open>World (src/app/game/world.js)\<close>

text \<open>
  The fields of \<^verbatim>\<open>World\<close> that the grid operations use. \<^verbatim>\<open>tileMap\<close> and
  \<^verbatim>\<open>objectMap\<close> are indexed \<^verbatim>\<open>[x][y]\<close>. A cell of \<^verbatim>\<open>objectMap\<close> is
  \<^verbatim>\<open>undefined\<close> when empty and an object kind (0 for a tree) otherwise.
\<close>

record world =
  width :: int
  height :: int
  tileMap :: "int js_array js_array"
  objectMap :: "int js_array js_array"

text \<open>What \<^verbatim>\<open>changeTile\<close> logs and emits, in order.\<close>

datatype world_effect =
    LoggerError_InvalidTilePosition int int
  | LoggerDebug_TileChanged int int int
  | IoEmit_worldUpdate "(int \<times> int \<times> int) list"

definition isValidTile :: "world \<Rightarrow> int \<Rightarrow> int \<Rightarrow> bool" where
  "isValidTile w x y = (x \<ge> 0 \<and> x < width w \<and> y \<ge> 0 \<and> y < height w)"

text \<open>
  \<^verbatim>\<open>TileData\<close> comes from \<^verbatim>\<open>shared/constant.js\<close>, which is not part of the sources:
  it is a parameter, a table from tile id to a number. \<^verbatim>\<open>TileData[undefined]\<close> is
  \<^verbatim>\<open>undefined\<close>.
\<close>

definition TileData_lookup :: "(int \<Rightarrow> int option) \<Rightarrow> int option \<Rightarrow> int option" where
  "TileData_lookup TileData tile = (case tile of None \<Rightarrow> None | Some t \<Rightarrow> TileData t)"

text \<open>
  \<^verbatim>\<open>let tile = this.tileMap[x][y]; return TileData[tile] === 0;\<close>
  The direction mask (\<^verbatim>\<open>bit\<close> in the source, \<open>dirMask\<close> here) is a parameter of the source function and is not read.
\<close>

definition checkPassage ::
  "(int \<Rightarrow> int option) \<Rightarrow> world \<Rightarrow> int \<Rightarrow> int \<Rightarrow> 32 word \<Rightarrow> js_error + bool" where
  "checkPassage TileData w x y dirMask =
     (case js_index (tileMap w) x of
        None \<Rightarrow> Inl TypeError
      | Some row \<Rightarrow> Inr (TileData_lookup TileData (js_index row y) = Some 0))"

text \<open>
  \<^verbatim>\<open>let obj = this.objectMap[x][y]; return obj >= 0;\<close>
  (\<^verbatim>\<open>undefined >= 0\<close> is false).
\<close>

definition checkObject :: "world \<Rightarrow> int \<Rightarrow> int \<Rightarrow> 32 word \<Rightarrow> js_error + bool" where
  "checkObject w x y dirMask =
     (case js_index (objectMap w) x of
        None \<Rightarrow> Inl TypeError
      | Some row \<Rightarrow> Inr (case js_index row y of None \<Rightarrow> False | Some obj \<Rightarrow> obj \<ge> 0))"

text \<open>
  \<^verbatim>\<open>(1 << (d / 2 - 1)) & 0x0f\<close> for an integer direction \<open>d\<close>: the shift count is
  \<open>d / 2 - 1\<close> truncated towards zero, taken modulo 32; the shift is on 32-bit integers.
\<close>

definition directionShift :: "int \<Rightarrow> nat" where
  "directionShift d =
     nat ((if d - 2 \<ge> 0 then (d - 2) div 2 else - ((2 - d) div 2)) mod 32)"

definition directionBit :: "int \<Rightarrow> 32 word" where
  "directionBit d = (push_bit (directionShift d) (1 :: 32 word)) AND 0x0f"

text \<open>
  \<^verbatim>\<open>return this.checkPassage(x, y, bit) && !this.checkObject(x, y, bit);\<close>
  \<^verbatim>\<open>&&\<close> does not evaluate its right operand when the left one is false.
\<close>

definition isPassable ::
  "(int \<Rightarrow> int option) \<Rightarrow> world \<Rightarrow> int \<Rightarrow> int \<Rightarrow> int \<Rightarrow> js_error + bool" where
  "isPassable TileData w x y d =
     (case checkPassage TileData w x y (directionBit d) of
        Inl e \<Rightarrow> Inl e
      | Inr False \<Rightarrow> Inr False
      | Inr True \<Rightarrow>
          (case checkObject w x y (directionBit d) of
             Inl e \<Rightarrow> Inl e
           | Inr b \<Rightarrow> Inr (\<not> b)))"

text \<open>
  \<^verbatim>\<open>changeTile(x, y, tileId = Tiles.GRASS)\<close>. \<^verbatim>\<open>Tiles.GRASS\<close> is a constant of
  \<^verbatim>\<open>shared/constant.js\<close> and is a parameter; an omitted \<open>tileId\<close> is \<open>None\<close>.
  The result is the world after the call with what was logged and emitted, or the
  TypeError of \<^verbatim>\<open>this.tileMap[x][y] = tileId\<close> when \<^verbatim>\<open>this.tileMap[x]\<close> is undefined.
\<close>

definition changeTile ::
  "int \<Rightarrow> world \<Rightarrow> int \<Rightarrow> int \<Rightarrow> int option \<Rightarrow> js_error + (world \<times> world_effect list)" where
  "changeTile GRASS w x y tileIdArg =
     (let tileId = (case tileIdArg of None \<Rightarrow> GRASS | Some t \<Rightarrow> t) in
      if \<not> isValidTile w x y then Inr (w, [LoggerError_InvalidTilePosition x y])
      else
        (case js_index (tileMap w) x of
           None \<Rightarrow> Inl TypeError
         | Some row \<Rightarrow>
             Inr (w\<lparr>tileMap := (tileMap w)[nat x := Some (js_assign row (nat y) tileId)]\<rparr>,
                  [LoggerDebug_TileChanged x y tileId, IoEmit_worldUpdate [(x, y, tileId)]])))"

text \<open>The tile stored at \<open>(x, y)\<close>, \<open>None\<close> when there is none.\<close>

definition tileAt :: "world \<Rightarrow> int \<Rightarrow> int \<Rightarrow> int option" where
  "tileAt w x y = (case js_index (tileMap w) x of None \<Rightarrow> None | Some row \<Rightarrow> js_index row y)"

definition objectAt :: "world \<Rightarrow> int \<Rightarrow> int \<Rightarrow> int option" where
  "objectAt w x y = (case js_index (objectMap w) x of None \<Rightarrow> None | Some row \<Rightarrow> js_index row y)"

text \<open>
  A freshly generated 16 by 16 world (the size of the specification's scenario): every
  tile is grass (0), no object is placed. In \<open>TileData16\<close> grass, sand and stone are
  passable (0) and water (3) is not.
\<close>

definition world16 :: world where
  "world16 = \<lparr>width = 16, height = 16,
     tileMap = replicate 16 (Some (replicate 16 (Some 0))),
     objectMap = replicate 16 (Some (replicate 16 None))\<rparr>"

definition TileData16 :: "int \<Rightarrow> int option" where
  "TileData16 t = (if t = 0 \<or> t = 1 \<or> t = 2 then Some 0 else if t = 3 then Some 1 else None)"

text \<open>A 2 by 2 world: water at (0, 0), a tree on the grass of (1, 1).\<close>

definition world2 :: world where
  "world2 = \<lparr>width = 2, height = 2,
     tileMap = [Some [Some 3, Some 0], Some [Some 1, Some 0]],
     objectMap = [Some [None, None], Some [None, Some 0]]\<rparr>"

section \<open>Spawn placement (the loop of Server.onPlayerJoinWorld)\<close>

text \<open>
  \<^verbatim>\<open>do { newX = Math.floor(Math.random() * WorldConfig.WIDTH);
       newY = Math.floor(Math.random() * WorldConfig.HEIGHT);
  } while (!this.world.isPassable(newX, newY, 2));\<close>
  The random source is the sequence \<open>draws\<close> of the coordinate pairs it produces, the
  \<open>i\<close>-th pair for the \<open>i\<close>-th iteration. The loop has no other exit, so it is a
  partial function: \<open>None\<close> is a loop that never ends, \<open>Some (Inl e)\<close> a throw of
  \<open>isPassable\<close>, \<open>Some (Inr (newX, newY))\<close> the coordinates found.
\<close>

partial_function (option) spawnSearch ::
  "(int \<Rightarrow> int option) \<Rightarrow> world \<Rightarrow> (nat \<Rightarrow> int \<times> int) \<Rightarrow> nat \<Rightarrow> (js_error + int \<times> int) option" where
  "spawnSearch TileData w draws i =
     (case isPassable TileData w (fst (draws i)) (snd (draws i)) 2 of
        Inl e \<Rightarrow> Some (Inl e)
      | Inr passable \<Rightarrow>
          if passable then Some (Inr (draws i))
          else spawnSearch TileData w draws (Suc i))"

text \<open>A world of one water tile: no tile is passable.\<close>

definition waterWorld :: world where
  "waterWorld = \<lparr>width = 1, height = 1, tileMap = [Some [Some 3]], objectMap = [Some [None]]\<rparr>"

section \<open>Tree\<close>

text \<open>
  \<^verbatim>\<open>Tree\<close> with the two fields its interaction handler uses. The constructor draws
  the durability with \<^verbatim>\<open>util.integerInRange(1, 4)\<close> and sets the loot to
  \<^verbatim>\<open>Tiles.STONE\<close>; both are arguments here. \<^verbatim>\<open>player.gainItem(item, n)\<close> is
  recorded as the call \<open>GainItem item n\<close>; \<open>amount\<close> is the value that
  \<^verbatim>\<open>util.integerInRange(1, 2)\<close> gives when the handler draws it.
\<close>

record tree =
  durability :: int
  loot :: int

datatype player_call = GainItem int int

definition Tree_new :: "int \<Rightarrow> int \<Rightarrow> tree" where
  "Tree_new STONE drawn = \<lparr>durability = drawn, loot = STONE\<rparr>"

definition onInteraction :: "tree \<Rightarrow> int \<Rightarrow> tree \<times> player_call list" where
  "onInteraction tr amount =
     (let tr' = tr\<lparr>durability := durability tr - 1\<rparr> in
      if durability tr' \<le> 0 then (tr', [GainItem (loot tr') amount]) else (tr', []))"

text \<open>Successive interactions with one tree: the calls to the player made by each.\<close>

fun interactions :: "tree \<Rightarrow> int list \<Rightarrow> player_call list list" where
  "interactions tr [] = []"
| "interactions tr (amount # amounts) =
     snd (onInteraction tr amount) # interactions (fst (onInteraction tr amount)) amounts"

section \<open>Server\<close>

text \<open>
  A JavaScript \<^verbatim>\<open>Map\<close> keeps its entries in insertion order and \<^verbatim>\<open>forEach\<close>
  visits them in that order: an association list. \<^verbatim>\<open>set\<close> on a key that is present
  replaces the value in place, on a new key it appends.
\<close>

definition Map_get :: "('k \<times> 'v) list \<Rightarrow> 'k \<Rightarrow> 'v option" where
  "Map_get m k = map_of m k"

fun Map_set :: "'k \<Rightarrow> 'v \<Rightarrow> ('k \<times> 'v) list \<Rightarrow> ('k \<times> 'v) list" where
  "Map_set k v [] = [(k, v)]"
| "Map_set k v ((k', v') # m) = (if k' = k then (k, v) # m else (k', v') # Map_set k v m)"

definition Map_delete :: "'k \<Rightarrow> ('k \<times> 'v) list \<Rightarrow> ('k \<times> 'v) list" where
  "Map_delete k m = filter (\<lambda>e. fst e \<noteq> k) m"

text \<open>
  The \<^verbatim>\<open>World\<close> class that this \<^verbatim>\<open>Server\<close> drives (with \<^verbatim>\<open>players\<close>,
  \<^verbatim>\<open>addPlayer\<close>, \<^verbatim>\<open>removePlayer\<close>), \<^verbatim>\<open>describeAll\<close>, \<^verbatim>\<open>CommandFactory\<close> and
  the constants of \<^verbatim>\<open>shared/constant.js\<close> are not among the sources. The server is
  generic in the world state \<open>'w\<close> and takes the operations it calls on it as a
  parameter. A command is the closure that \<^verbatim>\<open>CommandFactory\<close> returns;
  \<^verbatim>\<open>World.processInput(command)\<close> is \<^verbatim>\<open>command()\<close>, so a command is a function on the
  world state.
\<close>

record 'w world_ops =
  World_incStepCount :: "'w \<Rightarrow> 'w"
  World_step :: "int \<Rightarrow> 'w \<Rightarrow> 'w"
  World_hasPlayer :: "'w \<Rightarrow> int \<Rightarrow> bool"
  World_addPlayer :: "int \<Rightarrow> int \<Rightarrow> int \<Rightarrow> 'w \<Rightarrow> 'w"
  World_removePlayer :: "int \<Rightarrow> 'w \<Rightarrow> 'w"
  describeAll_players :: "'w \<Rightarrow> string"

definition processInput :: "('w \<Rightarrow> 'w) \<Rightarrow> 'w \<Rightarrow> 'w" where
  "processInput command w = command w"

text \<open>The \<^verbatim>\<open>type\<close> field of an inbound envelope can hold any value.\<close>

datatype js_value = JUndefined | JNumber int | JString string

record 'prm command_envelope =
  cmd_type :: js_value
  cmd_params :: 'prm

record commands_table =
  MOVEMENT :: js_value
  ALTER_TILE :: js_value
  COMMUNICATION :: js_value
  INTERACTION :: js_value

text \<open>
  The factory receives \<^verbatim>\<open>this.world.players.get(playerId)\<close>: the player's id when the
  world has the player, \<open>None\<close> for \<^verbatim>\<open>undefined\<close>.
\<close>

record ('w, 'prm) command_factory =
  makeMoveCommand :: "int option \<Rightarrow> 'prm \<Rightarrow> ('w \<Rightarrow> 'w)"
  makeChangeTileCommand :: "int option \<Rightarrow> 'prm \<Rightarrow> ('w \<Rightarrow> 'w)"
  makeCommunicateCommand :: "int option \<Rightarrow> 'prm \<Rightarrow> ('w \<Rightarrow> 'w)"
  makeInteractCommand :: "int option \<Rightarrow> 'prm \<Rightarrow> ('w \<Rightarrow> 'w)"

record server_config =
  STEP_RATE :: "int option"
  MAX_PLAYERS :: "int option"
  TIMEOUT_INTERVAL :: "int option"

record connected_player =
  player_state :: string
  playerId :: int

text \<open>An element \<^verbatim>\<open>{t: ..., d: ...}\<close> of the outgoing buffer.\<close>

record payload =
  payload_t :: int
  payload_d :: string

text \<open>A pending \<^verbatim>\<open>setTimeout\<close>: its handle, the socket whose timeout it is, the delay in ms.\<close>

record timeout =
  timeout_handle :: nat
  timeout_socket :: string
  timeout_delay :: int

text \<open>What the server emits, and the errors it logs (the info lines are left out).\<close>

datatype server_effect =
    IoEmit_update "payload list"
  | SocketEmit_initWorld string int
  | SocketBroadcast_playerEvent string
  | WorldEmit_playerSpawn
  | LoggerError_InvalidCommand js_value
  | LoggerError_should_not_happen

text \<open>
  The fields of \<^verbatim>\<open>Server\<close>, a socket being its \<^verbatim>\<open>id\<close>. The last four fields are
  the state outside the object that its methods change: the \<^verbatim>\<open>idleTimeout\<close> property
  of each socket, the timeouts pending in the runtime, the next fresh timeout handle, and
  what was emitted and logged so far.
\<close>

record 'w server =
  connectedPlayers :: "(string \<times> connected_player) list"
  playerInputQueues :: "(int \<times> ('w \<Rightarrow> 'w) list) list"
  intervalFrameRate :: int
  maximumPlayer :: int
  timeoutInterval :: int
  lastPlayerID :: int
  world :: 'w
  gameTick :: int
  outgoingBuffer :: "payload list"
  outgoingDelta :: int
  serverStartTime :: int
  lastServerTime :: int
  socketIdleTimeout :: "(string \<times> nat) list"
  pendingTimeouts :: "timeout list"
  nextTimeoutHandle :: nat
  effects :: "server_effect list"

text \<open>\<^verbatim>\<open>v || dflt\<close> for a number or \<^verbatim>\<open>undefined\<close>: 0 is falsy as \<^verbatim>\<open>undefined\<close> is.\<close>

definition js_or :: "int option \<Rightarrow> int \<Rightarrow> int" where
  "js_or v dflt = (case v of None \<Rightarrow> dflt | Some n \<Rightarrow> if n = 0 then dflt else n)"

text \<open>
  The constructor, followed by \<^verbatim>\<open>setup\<close>, which installs the world \<open>w\<close> (the
  constructor leaves \<^verbatim>\<open>this.world\<close> null). The three fields that only \<^verbatim>\<open>start\<close>
  sets are 0 until then.
\<close>

definition Server_new :: "server_config \<Rightarrow> 'w \<Rightarrow> 'w server" where
  "Server_new ServerConfig w =
     \<lparr>connectedPlayers = [], playerInputQueues = [],
      intervalFrameRate = js_or (STEP_RATE ServerConfig) 60,
      maximumPlayer = js_or (MAX_PLAYERS ServerConfig) 50,
      timeoutInterval = js_or (TIMEOUT_INTERVAL ServerConfig) 40,
      lastPlayerID = 0, world = w, gameTick = 0, outgoingBuffer = [],
      outgoingDelta = 0, serverStartTime = 0, lastServerTime = 0,
      socketIdleTimeout = [], pendingTimeouts = [], nextTimeoutHandle = 0, effects = []\<rparr>"

text \<open>
  \<^verbatim>\<open>if (socket.idleTimeout) clearTimeout(socket.idleTimeout);
  if (this.timeoutInterval > 0)
    socket.idleTimeout = setTimeout(() => this.onPlayerTimeout(socket), this.timeoutInterval * 1000);\<close>
\<close>

definition resetIdleTimeout :: "string \<Rightarrow> 'w server \<Rightarrow> 'w server" where
  "resetIdleTimeout socket s =
     (let s1 = (case Map_get (socketIdleTimeout s) socket of
                  Some h \<Rightarrow> s\<lparr>pendingTimeouts := filter (\<lambda>t. timeout_handle t \<noteq> h) (pendingTimeouts s)\<rparr>
                | None \<Rightarrow> s) in
      if timeoutInterval s1 > 0 then
        s1\<lparr>socketIdleTimeout := Map_set socket (nextTimeoutHandle s1) (socketIdleTimeout s1),
           pendingTimeouts := pendingTimeouts s1 @
             [\<lparr>timeout_handle = nextTimeoutHandle s1, timeout_socket = socket,
               timeout_delay = timeoutInterval s1 * 1000\<rparr>],
           nextTimeoutHandle := Suc (nextTimeoutHandle s1)\<rparr>
      else s1)"

text \<open>
  The loop of \<^verbatim>\<open>step\<close> over \<^verbatim>\<open>playerInputQueues\<close>: each queue in turn has its
  commands processed in order and is then cleared (\<^verbatim>\<open>commands.length = 0\<close>).
\<close>

fun drainQueues ::
  "(int \<times> ('w \<Rightarrow> 'w) list) list \<Rightarrow> 'w \<Rightarrow> (int \<times> ('w \<Rightarrow> 'w) list) list \<times> 'w" where
  "drainQueues [] w = ([], w)"
| "drainQueues ((pid, commands) # queues) w =
     (let w' = foldl (\<lambda>w cmd. processInput cmd w) w commands;
          rest = drainQueues queues w'
      in ((pid, []) # fst rest, snd rest))"

definition step :: "'w world_ops \<Rightarrow> int \<Rightarrow> 'w server \<Rightarrow> 'w server" where
  "step World dt s =
     (let w1 = World_incStepCount World (world s);
          drained = drainQueues (playerInputQueues s) w1
      in s\<lparr>playerInputQueues := fst drained, world := World_step World dt (snd drained)\<rparr>)"

definition sendOutgoingBuffer :: "'w server \<Rightarrow> 'w server" where
  "sendOutgoingBuffer s =
     s\<lparr>effects := effects s @ [IoEmit_update (outgoingBuffer s)], outgoingBuffer := []\<rparr>"

text \<open>
  \<^verbatim>\<open>start\<close> at time \<open>now\<close>. \<^verbatim>\<open>Math.floor((1000 / rate) * 2)\<close> is \<open>2000 div rate\<close>.
  The interval callback that \<^verbatim>\<open>start\<close> installs is \<open>start_onInterval\<close> below.
\<close>

definition start :: "int \<Rightarrow> 'w server \<Rightarrow> 'w server" where
  "start now s =
     s\<lparr>outgoingDelta := 2000 div intervalFrameRate s, serverStartTime := now,
       lastServerTime := now\<rparr>"

text \<open>One firing of the interval callback of \<^verbatim>\<open>start\<close>, at time \<open>timeNow\<close>.\<close>

definition start_onInterval :: "'w world_ops \<Rightarrow> int \<Rightarrow> 'w server \<Rightarrow> 'w server" where
  "start_onInterval World timeNow s =
     (let dt = timeNow - lastServerTime s;
          s1 = step World dt s;
          s2 = (if length (connectedPlayers s1) \<noteq> 0 then
                  sendOutgoingBuffer
                    (s1\<lparr>outgoingBuffer := outgoingBuffer s1 @
                        [\<lparr>payload_t = gameTick s1,
                          payload_d = describeAll_players World (world s1)\<rparr>]\<rparr>)
                else s1)
      in s2\<lparr>lastServerTime := timeNow, gameTick := gameTick s2 + 1\<rparr>)"

fun ticks :: "'w world_ops \<Rightarrow> int list \<Rightarrow> 'w server \<Rightarrow> 'w server" where
  "ticks World [] s = s"
| "ticks World (timeNow # later) s = ticks World later (start_onInterval World timeNow s)"

text \<open>
  \<^verbatim>\<open>onPlayerJoinWorld\<close> after its placement loop, which is \<open>spawnSearch\<close> above and
  whose result \<open>(newX, newY)\<close> is an argument here. The \<^verbatim>\<open>inputCommand\<close> handler it
  registers is \<open>onReceivedInput\<close> for this socket and player id.
\<close>

definition onPlayerJoinWorld ::
  "'w world_ops \<Rightarrow> string \<Rightarrow> int \<Rightarrow> int \<times> int \<Rightarrow> 'w server \<Rightarrow> 'w server" where
  "onPlayerJoinWorld World socket pid newXY s =
     (let s1 = resetIdleTimeout socket s;
          s2 = s1\<lparr>world := World_addPlayer World (fst newXY) (snd newXY) pid (world s1)\<rparr>
      in s2\<lparr>effects := effects s2 @
            [SocketEmit_initWorld socket pid, SocketBroadcast_playerEvent socket,
             WorldEmit_playerSpawn]\<rparr>)"

definition onPlayerConnected ::
  "'w world_ops \<Rightarrow> string \<Rightarrow> int \<times> int \<Rightarrow> 'w server \<Rightarrow> 'w server" where
  "onPlayerConnected World socket newXY s =
     (let pid = lastPlayerID s + 1;
          s1 = s\<lparr>lastPlayerID := pid\<rparr>;
          s2 = s1\<lparr>playerInputQueues := Map_set pid [] (playerInputQueues s1)\<rparr>;
          s3 = s2\<lparr>connectedPlayers :=
                  Map_set socket \<lparr>player_state = ''new'', playerId = pid\<rparr> (connectedPlayers s2)\<rparr>
      in onPlayerJoinWorld World socket pid newXY s3)"

definition onPlayerDisconnected :: "'w world_ops \<Rightarrow> string \<Rightarrow> 'w server \<Rightarrow> 'w server" where
  "onPlayerDisconnected World socket s =
     (let s1 = (case Map_get (connectedPlayers s) socket of
                  Some player \<Rightarrow> s\<lparr>world := World_removePlayer World (playerId player) (world s)\<rparr>
                | None \<Rightarrow> s\<lparr>effects := effects s @ [LoggerError_should_not_happen]\<rparr>)
      in s1\<lparr>connectedPlayers := Map_delete socket (connectedPlayers s1)\<rparr>)"

text \<open>The handler of a socket's \<^verbatim>\<open>disconnect\<close> event, registered by \<^verbatim>\<open>onPlayerConnected\<close>.\<close>

definition onDisconnect :: "'w world_ops \<Rightarrow> string \<Rightarrow> 'w server \<Rightarrow> 'w server" where
  "onDisconnect World socket s =
     onPlayerDisconnected World socket
       (s\<lparr>effects := effects s @ [SocketBroadcast_playerEvent socket]\<rparr>)"

text \<open>\<^verbatim>\<open>queue.push(cmd)\<close> throws when the player has no queue.\<close>

definition queueInputForPlayer ::
  "('w \<Rightarrow> 'w) \<Rightarrow> int \<Rightarrow> 'w server \<Rightarrow> js_error + 'w server" where
  "queueInputForPlayer cmd pid s =
     (case Map_get (playerInputQueues s) pid of
        None \<Rightarrow> Inl TypeError
      | Some queue \<Rightarrow> Inr (s\<lparr>playerInputQueues := Map_set pid (queue @ [cmd]) (playerInputQueues s)\<rparr>))"

definition onReceivedInput ::
  "'w world_ops \<Rightarrow> commands_table \<Rightarrow> ('w, 'prm) command_factory \<Rightarrow> 'prm command_envelope \<Rightarrow>
   string \<Rightarrow> int \<Rightarrow> 'w server \<Rightarrow> js_error + 'w server" where
  "onReceivedInput World Commands CommandFactory cmd socket pid s =
     (let player = (if World_hasPlayer World (world s) pid then Some pid else None);
          s1 = resetIdleTimeout socket s
      in if cmd_type cmd = MOVEMENT Commands then
           queueInputForPlayer (makeMoveCommand CommandFactory player (cmd_params cmd)) pid s1
         else if cmd_type cmd = ALTER_TILE Commands then
           queueInputForPlayer (makeChangeTileCommand CommandFactory player (cmd_params cmd)) pid s1
         else if cmd_type cmd = COMMUNICATION Commands then
           queueInputForPlayer (makeCommunicateCommand CommandFactory player (cmd_params cmd)) pid s1
         else if cmd_type cmd = INTERACTION Commands then
           queueInputForPlayer (makeInteractCommand CommandFactory player (cmd_params cmd)) pid s1
         else Inr (s1\<lparr>effects := effects s1 @ [LoggerError_InvalidCommand (cmd_type cmd)]\<rparr>))"

text \<open>A server run as a sequence of connections, each with the tile found for it, and disconnections.\<close>

datatype connection_event = Connect string "int \<times> int" | Disconnect string

fun run_events :: "'w world_ops \<Rightarrow> connection_event list \<Rightarrow> 'w server \<Rightarrow> 'w server" where
  "run_events World [] s = s"
| "run_events World (Connect socket newXY # evs) s =
     run_events World evs (onPlayerConnected World socket newXY s)"
| "run_events World (Disconnect socket # evs) s =
     run_events World evs (onDisconnect World socket s)"

fun connections :: "connection_event list \<Rightarrow> nat" where
  "connections [] = 0"
| "connections (Connect socket newXY # evs) = Suc (connections evs)"
| "connections (Disconnect socket # evs) = connections evs"

text \<open>The ids sent to connecting clients, in order: the \<^verbatim>\<open>id\<close> of each \<^verbatim>\<open>initWorld\<close>.\<close>

fun assignedIds :: "server_effect list \<Rightarrow> int list" where
  "assignedIds [] = []"
| "assignedIds (SocketEmit_initWorld socket pid # fx) = pid # assignedIds fx"
| "assignedIds (e # fx) = assignedIds fx"

text \<open>
  A world state for examples: a step counter and the trace of the commands applied.
  The constants are those of the specification: Move = 1, AlterTile = 2,
  Communicate = 3, Interact = 4.
\<close>

definition traceOps :: "(int \<times> string list) world_ops" where
  "traceOps = \<lparr>World_incStepCount = (\<lambda>w. (fst w + 1, snd w)),
     World_step = (\<lambda>dt w. w),
     World_hasPlayer = (\<lambda>w pid. True),
     World_addPlayer = (\<lambda>x y pid w. w),
     World_removePlayer = (\<lambda>pid w. w),
     describeAll_players = (\<lambda>w. ''players'')\<rparr>"

definition traceCmd :: "string \<Rightarrow> int \<times> string list \<Rightarrow> int \<times> string list" where
  "traceCmd name w = (fst w, snd w @ [name])"

definition Commands1234 :: commands_table where
  "Commands1234 = \<lparr>MOVEMENT = JNumber 1, ALTER_TILE = JNumber 2,
     COMMUNICATION = JNumber 3, INTERACTION = JNumber 4\<rparr>"

definition traceFactory :: "(int \<times> string list, string) command_factory" where
  "traceFactory = \<lparr>makeMoveCommand = (\<lambda>player prm. traceCmd (''move '' @ prm)),
     makeChangeTileCommand = (\<lambda>player prm. traceCmd (''tile '' @ prm)),
     makeCommunicateCommand = (\<lambda>player prm. traceCmd (''say '' @ prm)),
     makeInteractCommand = (\<lambda>player prm. traceCmd (''use '' @ prm))\<rparr>"

definition defaultConfig :: server_config where
  "defaultConfig = \<lparr>STEP_RATE = Some 60, MAX_PLAYERS = Some 50, TIMEOUT_INTERVAL = Some 40\<rparr>"

text \<open>A server with its defaults and one connected client, \<open>sockA\<close>, placed at \<open>(0, 0)\<close>.\<close>

definition serverA :: "(int \<times> string list) server" where
  "serverA = onPlayerConnected traceOps ''sockA'' (0, 0) (Server_new defaultConfig (0, []))"

text \<open>The buffers flushed to the clients, in order: the argument of each \<^verbatim>\<open>update\<close>.\<close>

fun emittedUpdates :: "server_effect list \<Rightarrow> payload list list" where
  "emittedUpdates [] = []"
| "emittedUpdates (IoEmit_update buffer # fx) = buffer # emittedUpdates fx"
| "emittedUpdates (e # fx) = emittedUpdates fx"

section \<open>Passability\<close>

lemma js_index_outside: "i < 0 \<or> int (length a) \<le> i \<Longrightarrow> js_index a i = None"
  by (auto simp: js_index_def)

lemma js_index_inside: "0 \<le> i \<Longrightarrow> i < int (length a) \<Longrightarrow> js_index a i = a ! nat i"
  by (simp add: js_index_def)

lemma js_index_js_assign_same: "js_index (js_assign a i v) (int i) = Some v"
  by (simp add: js_index_def js_assign_def nth_append)

lemma js_index_js_assign_other:
  "j \<noteq> int i \<Longrightarrow> js_index (js_assign a i v) j = js_index a j"
  by (auto simp: js_index_def js_assign_def nth_append)

text \<open>A column outside the rows of \<open>tileMap\<close> makes \<open>isPassable\<close> throw.\<close>

lemma isPassable_no_row:
  "x < 0 \<or> int (length (tileMap w)) \<le> x \<Longrightarrow> isPassable TileData w x y d = Inl TypeError"
  by (simp add: isPassable_def checkPassage_def js_index_outside)

text \<open>Inside an existing row, a \<open>y\<close> outside the row is not passable.\<close>

lemma isPassable_no_cell:
  "js_index (tileMap w) x = Some row \<Longrightarrow> y < 0 \<or> int (length row) \<le> y \<Longrightarrow>
   isPassable TileData w x y d = Inr False"
  by (simp add: isPassable_def checkPassage_def js_index_outside TileData_lookup_def)

text \<open>
  C1. The claim: \<open>isPassable\<close> returns false at every out-of-bounds coordinate. On
  the 16 by 16 world, \<open>isPassable(-1, 0, 2)\<close> and \<open>isPassable(16, 0, 2)\<close> (the
  coordinates \<open>(-1, 0)\<close> and \<open>(width, 0)\<close>) throw a TypeError instead: the function
  reads \<open>tileMap[x][y]\<close> without the bounds check of \<open>isValidTile\<close>. Only an
  out-of-bounds \<open>y\<close> in an existing column gives false.
\<close>

theorem isPassable_out_of_bounds_throws:
  "\<not> isValidTile world16 (-1) 0 \<and> isPassable TileData16 world16 (-1) 0 2 = Inl TypeError
   \<and> \<not> isValidTile world16 16 0 \<and> isPassable TileData16 world16 16 0 2 = Inl TypeError
   \<and> \<not> isValidTile world16 0 16 \<and> isPassable TileData16 world16 0 16 2 = Inr False"
  by (simp add: isValidTile_def world16_def isPassable_def checkPassage_def js_index_def
      TileData_lookup_def)

text \<open>
  C10. The direction has no influence on \<open>isPassable\<close>: two calls at the same
  coordinate with any two directions agree, and where the column \<open>x\<close> exists in both
  grids the result is a function of the tile at \<open>(x, y)\<close> and of whether the object
  cell at \<open>(x, y)\<close> is occupied.
\<close>

theorem isPassable_direction_irrelevant:
  assumes "js_index (tileMap w) x = Some trow" and "js_index (objectMap w) x = Some orow"
  shows "isPassable TileData w x y da = isPassable TileData w x y db
    \<and> isPassable TileData w x y da =
        Inr (TileData_lookup TileData (tileAt w x y) = Some 0
             \<and> \<not> (case objectAt w x y of None \<Rightarrow> False | Some obj \<Rightarrow> obj \<ge> 0))"
  using assms
  by (auto simp: isPassable_def checkPassage_def checkObject_def tileAt_def objectAt_def
      split: bool.splits option.splits)

theorem isPassable_direction_irrelevant_witness:
  "isPassable TileData16 world2 1 0 2 = isPassable TileData16 world2 1 0 8
   \<and> isPassable TileData16 world2 1 0 2 = Inr True
   \<and> isPassable TileData16 world2 1 1 4 = isPassable TileData16 world2 1 1 6
   \<and> isPassable TileData16 world2 1 1 4 = Inr False"
proof -
  have t: "js_index (tileMap world2) 1 = Some [Some 1, Some 0]"
    by (simp add: world2_def js_index_def)
  have ob: "js_index (objectMap world2) 1 = Some [None, Some 0]"
    by (simp add: world2_def js_index_def)
  have a: "TileData_lookup TileData16 (tileAt world2 1 0) = Some 0"
    by (simp add: world2_def tileAt_def js_index_def TileData_lookup_def TileData16_def)
  have b: "objectAt world2 1 0 = None"
    by (simp add: world2_def objectAt_def js_index_def)
  have c: "objectAt world2 1 1 = Some 0"
    by (simp add: world2_def objectAt_def js_index_def)
  have p: "isPassable TileData16 world2 1 0 2 = isPassable TileData16 world2 1 0 8
      \<and> isPassable TileData16 world2 1 0 2 = Inr True"
    using isPassable_direction_irrelevant [OF t ob, where TileData = TileData16 and y = 0
        and da = 2 and db = 8] a b
    by auto
  have q: "isPassable TileData16 world2 1 1 4 = isPassable TileData16 world2 1 1 6
      \<and> isPassable TileData16 world2 1 1 4 = Inr False"
    using isPassable_direction_irrelevant [OF t ob, where TileData = TileData16 and y = 1
        and da = 4 and db = 6] c
    by auto
  from p q show ?thesis by blast
qed

section \<open>Changing a tile\<close>

lemma tileAt_changeTile_other:
  assumes "changeTile GRASS w x y tid = Inr (w', fx)" and "(x', y') \<noteq> (x, y)"
  shows "tileAt w' x' y' = tileAt w x' y'"
proof (cases "isValidTile w x y")
  case False
  with assms show ?thesis by (simp add: changeTile_def)
next
  case True
  then have x0: "0 \<le> x" and y0: "0 \<le> y" by (simp_all add: isValidTile_def)
  from assms True obtain row where row: "js_index (tileMap w) x = Some row"
    and w': "w' = w\<lparr>tileMap := (tileMap w)[nat x := Some (js_assign row (nat y)
        (case tid of None \<Rightarrow> GRASS | Some t \<Rightarrow> t))]\<rparr>"
    by (auto simp: changeTile_def Let_def split: option.splits)
  from row x0 have len: "x < int (length (tileMap w))"
    by (auto simp: js_index_def split: if_splits)
  show ?thesis
  proof (cases "x' = x")
    case True
    with assms(2) have "y' \<noteq> int (nat y)" using y0 by simp
    then have cell: "js_index (js_assign row (nat y) (case tid of None \<Rightarrow> GRASS | Some t \<Rightarrow> t)) y'
        = js_index row y'"
      by (rule js_index_js_assign_other)
    have "js_index (tileMap w') x
        = Some (js_assign row (nat y) (case tid of None \<Rightarrow> GRASS | Some t \<Rightarrow> t))"
      using x0 len w' by (simp add: js_index_def)
    then show ?thesis
      using True row cell by (simp add: tileAt_def)
  next
    case False
    then show ?thesis
      using w' x0 by (auto simp: tileAt_def js_index_def)
  qed
qed

text \<open>
  C7. \<open>changeTile(x, y, tileId)\<close> at a valid coordinate whose column exists in the grid
  writes \<open>tileId\<close> into the cell \<open>(x, y)\<close> and emits one \<open>worldUpdate\<close> whose tiles are
  exactly \<open>[[x, y, tileId]]\<close>; at an invalid coordinate \<open>(u, v)\<close> it logs the error,
  leaves the world as it was and emits nothing.
\<close>

theorem changeTile_valid_and_invalid:
  assumes "isValidTile w x y" and "js_index (tileMap w) x = Some row"
    and "\<not> isValidTile w u v"
  shows "changeTile GRASS w x y (Some tileId) =
           Inr (w\<lparr>tileMap := (tileMap w)[nat x := Some (js_assign row (nat y) tileId)]\<rparr>,
                [LoggerDebug_TileChanged x y tileId, IoEmit_worldUpdate [(x, y, tileId)]])
    \<and> tileAt (w\<lparr>tileMap := (tileMap w)[nat x := Some (js_assign row (nat y) tileId)]\<rparr>) x y
        = Some tileId
    \<and> changeTile GRASS w u v tid = Inr (w, [LoggerError_InvalidTilePosition u v])"
proof -
  from assms(1) have x0: "0 \<le> x" and y0: "0 \<le> y" by (simp_all add: isValidTile_def)
  from assms(2) x0 have len: "x < int (length (tileMap w))"
    by (auto simp: js_index_def split: if_splits)
  have "js_index (js_assign row (nat y) tileId) y = Some tileId"
    using js_index_js_assign_same [of row "nat y" tileId] y0 by simp
  then have cell: "tileAt (w\<lparr>tileMap := (tileMap w)[nat x := Some (js_assign row (nat y) tileId)]\<rparr>) x y
      = Some tileId"
    using x0 len by (simp add: tileAt_def js_index_def)
  show ?thesis
    using assms cell by (simp add: changeTile_def)
qed

theorem changeTile_valid_and_invalid_witness:
  "changeTile 0 world2 0 1 (Some 2) =
     Inr (world2\<lparr>tileMap := [Some [Some 3, Some 2], Some [Some 1, Some 0]]\<rparr>,
          [LoggerDebug_TileChanged 0 1 2, IoEmit_worldUpdate [(0, 1, 2)]])
   \<and> tileAt (world2\<lparr>tileMap := [Some [Some 3, Some 2], Some [Some 1, Some 0]]\<rparr>) 0 1 = Some 2
   \<and> changeTile 0 world2 2 0 (Some 2) = Inr (world2, [LoggerError_InvalidTilePosition 2 0])"
proof -
  have v: "isValidTile world2 0 1" by (simp add: isValidTile_def world2_def)
  have r: "js_index (tileMap world2) 0 = Some [Some 3, Some 0]"
    by (simp add: world2_def js_index_def)
  have i: "\<not> isValidTile world2 2 0" by (simp add: isValidTile_def world2_def)
  have u: "(tileMap world2)[nat 0 := Some (js_assign [Some 3, Some 0] (nat 1) 2)]
      = [Some [Some 3, Some 2], Some [Some 1, Some 0]]"
    by (simp add: world2_def js_assign_def)
  show ?thesis
    using changeTile_valid_and_invalid [OF v r i, of 0 2 "Some 2"] u by simp
qed

section \<open>Spawn placement\<close>

text \<open>If the search from iteration \<open>i\<close> returns, some draw from \<open>i\<close> on is not impassable.\<close>

lemma spawnSearch_Some_draw:
  assumes "spawnSearch TileData w draws i = Some r"
  shows "\<exists>n\<ge>i. isPassable TileData w (fst (draws n)) (snd (draws n)) 2 \<noteq> Inr False"
proof (rule spawnSearch.raw_induct [where P = "\<lambda>td wd ds j res.
    \<exists>n\<ge>j. isPassable td wd (fst (ds n)) (snd (ds n)) 2 \<noteq> Inr False", OF _ assms])
  fix f td wd ds j res
  assume IH: "\<And>td wd ds j res. f td wd ds j = Some res \<Longrightarrow>
      \<exists>n\<ge>j. isPassable td wd (fst (ds n)) (snd (ds n)) 2 \<noteq> Inr False"
    and eq: "(case isPassable td wd (fst (ds j)) (snd (ds j)) 2 of
        Inl e \<Rightarrow> Some (Inl e)
      | Inr passable \<Rightarrow> if passable then Some (Inr (ds j)) else f td wd ds (Suc j)) = Some res"
  show "\<exists>n\<ge>j. isPassable td wd (fst (ds n)) (snd (ds n)) 2 \<noteq> Inr False"
  proof (cases "isPassable td wd (fst (ds j)) (snd (ds j)) 2 = Inr False")
    case True
    with eq have "f td wd ds (Suc j) = Some res" by simp
    from IH [OF this] obtain n where "n \<ge> Suc j"
      "isPassable td wd (fst (ds n)) (snd (ds n)) 2 \<noteq> Inr False" by blast
    then show ?thesis by (intro exI [of _ n]) simp
  next
    case False
    then show ?thesis by blast
  qed
qed

text \<open>
  The search returns at the first draw that is not impassable: its coordinates when the
  tile is passable, the error when \<open>isPassable\<close> throws there.
\<close>

lemma spawnSearch_first:
  assumes "\<forall>j. i \<le> j \<and> j < n \<longrightarrow>
      isPassable TileData w (fst (draws j)) (snd (draws j)) 2 = Inr False"
    and "isPassable TileData w (fst (draws n)) (snd (draws n)) 2 \<noteq> Inr False" and "i \<le> n"
  shows "spawnSearch TileData w draws i =
    Some (case isPassable TileData w (fst (draws n)) (snd (draws n)) 2 of
            Inl e \<Rightarrow> Inl e | Inr b \<Rightarrow> Inr (draws n))"
  using assms
proof (induction "n - i" arbitrary: i)
  case 0
  then have "i = n" by simp
  with 0(3) show ?case
    by (subst spawnSearch.simps) (auto split: sum.splits)
next
  case (Suc k)
  then have lt: "i < n" by simp
  with Suc.prems(1) have here:
    "isPassable TileData w (fst (draws i)) (snd (draws i)) 2 = Inr False"
    by simp
  have "spawnSearch TileData w draws (Suc i) =
    Some (case isPassable TileData w (fst (draws n)) (snd (draws n)) 2 of
            Inl e \<Rightarrow> Inl e | Inr b \<Rightarrow> Inr (draws n))"
  proof (rule Suc.hyps(1))
    show "k = n - Suc i" using Suc.hyps(2) by simp
    show "\<forall>j. Suc i \<le> j \<and> j < n \<longrightarrow>
        isPassable TileData w (fst (draws j)) (snd (draws j)) 2 = Inr False"
      using Suc.prems(1) by simp
    show "isPassable TileData w (fst (draws n)) (snd (draws n)) 2 \<noteq> Inr False"
      by (rule Suc.prems(2))
    show "Suc i \<le> n" using lt by simp
  qed
  with here show ?case
    by (subst spawnSearch.simps) simp
qed

lemma spawnSearch_returns:
  assumes "isPassable TileData w (fst (draws n)) (snd (draws n)) 2 \<noteq> Inr False"
  shows "spawnSearch TileData w draws 0 \<noteq> None"
proof -
  define m where "m = (LEAST k. isPassable TileData w (fst (draws k)) (snd (draws k)) 2 \<noteq> Inr False)"
  have hit: "isPassable TileData w (fst (draws m)) (snd (draws m)) 2 \<noteq> Inr False"
    unfolding m_def using assms by (rule LeastI)
  have before: "\<forall>j. 0 \<le> j \<and> j < m \<longrightarrow>
      isPassable TileData w (fst (draws j)) (snd (draws j)) 2 = Inr False"
    unfolding m_def using not_less_Least by blast
  from spawnSearch_first [OF before hit] show ?thesis by simp
qed

lemma isPassable_waterWorld: "isPassable TileData16 waterWorld 0 0 2 = Inr False"
  by (simp add: isPassable_def checkPassage_def waterWorld_def js_index_def
      TileData_lookup_def TileData16_def)

text \<open>
  C6, as stated, fails: in the world of one water tile every draw is the impassable
  tile \<open>(0, 0)\<close>, and the placement loop never returns; it has no retry bound and no
  \<open>NoSpaceAvailable\<close> result.
\<close>

theorem spawnSearch_waterWorld_never_returns:
  "spawnSearch TileData16 waterWorld (\<lambda>i. (0, 0)) 0 = None"
proof (cases "spawnSearch TileData16 waterWorld (\<lambda>i. (0, 0)) 0")
  case None
  then show ?thesis .
next
  case (Some r)
  from spawnSearch_Some_draw [OF this] isPassable_waterWorld show ?thesis by simp
qed

text \<open>
  C6, amended. The placement loop retries without a bound: it returns exactly when
  some draw lands on a tile that is not impassable (passable, or \<open>isPassable\<close> throws
  there), and never returns when every draw is impassable.
\<close>

theorem spawnSearch_never_returns_iff:
  "(spawnSearch TileData w draws 0 = None) =
   (\<forall>n. isPassable TileData w (fst (draws n)) (snd (draws n)) 2 = Inr False)"
proof
  assume none: "spawnSearch TileData w draws 0 = None"
  show "\<forall>n. isPassable TileData w (fst (draws n)) (snd (draws n)) 2 = Inr False"
  proof (rule ccontr)
    assume "\<not> (\<forall>n. isPassable TileData w (fst (draws n)) (snd (draws n)) 2 = Inr False)"
    then obtain n where "isPassable TileData w (fst (draws n)) (snd (draws n)) 2 \<noteq> Inr False"
      by blast
    from spawnSearch_returns [of TileData w draws n, OF this] none show False by simp
  qed
next
  assume all: "\<forall>n. isPassable TileData w (fst (draws n)) (snd (draws n)) 2 = Inr False"
  show "spawnSearch TileData w draws 0 = None"
  proof (cases "spawnSearch TileData w draws 0")
    case None
    then show ?thesis .
  next
    case (Some r)
    from spawnSearch_Some_draw [OF this] all show ?thesis by blast
  qed
qed

theorem spawnSearch_never_returns_iff_witness:
  "spawnSearch TileData16 world2 (\<lambda>i. (int i, 0)) 0 \<noteq> None
   \<and> spawnSearch TileData16 waterWorld (\<lambda>i. (0, 1)) 0 = None"
proof -
  have "isPassable TileData16 world2 (fst (int 1, 0)) (snd (int 1, 0::int)) 2 \<noteq> Inr False"
    by (simp add: isPassable_def checkPassage_def checkObject_def world2_def js_index_def
        TileData_lookup_def TileData16_def)
  then have a: "\<not> (\<forall>n. isPassable TileData16 world2 (fst (int n, 0)) (snd (int n, 0::int)) 2
      = Inr False)"
    by blast
  have b: "\<forall>n::nat. isPassable TileData16 waterWorld (fst (0, 1)) (snd (0::int, 1)) 2 = Inr False"
    by (simp add: isPassable_def checkPassage_def waterWorld_def js_index_def
        TileData_lookup_def)
  show ?thesis
    using spawnSearch_never_returns_iff [of TileData16 world2 "\<lambda>i. (int i, 0)"]
      spawnSearch_never_returns_iff [of TileData16 waterWorld "\<lambda>i. (0, 1)"] a b
    by simp
qed

section \<open>Tree interaction\<close>

text \<open>
  C2, as stated, fails: a tree of durability 1 grants its loot at the first interaction
  and grants it again at the second, when the durability has gone from 0 to -1.
\<close>

theorem onInteraction_grants_again:
  "interactions (Tree_new 2 1) [1, 1] = [[GainItem 2 1], [GainItem 2 1]]"
  by (simp add: Tree_new_def onInteraction_def)

text \<open>
  C2, amended. In a run of interactions with one tree of initial durability \<open>d\<close>, the
  interaction number \<open>k + 1\<close> grants the loot exactly when \<open>d \<le> k + 1\<close>: the first
  \<open>d - 1\<close> interactions grant nothing, interaction \<open>d\<close> grants the loot once, and each
  later call of the handler on the same tree grants it again.
\<close>

theorem onInteraction_grants_from_dth:
  "k < length amounts \<Longrightarrow>
   interactions tr amounts ! k =
     (if durability tr \<le> int k + 1 then [GainItem (loot tr) (amounts ! k)] else [])"
proof (induction amounts arbitrary: tr k)
  case Nil
  then show ?case by simp
next
  case (Cons a as)
  show ?case
  proof (cases k)
    case 0
    then show ?thesis by (simp add: onInteraction_def Let_def)
  next
    case (Suc j)
    with Cons.prems have "j < length as" by simp
    from Cons.IH [OF this, of "fst (onInteraction tr a)"] Suc
    show ?thesis by (simp add: onInteraction_def Let_def)
  qed
qed

theorem onInteraction_grants_from_dth_witness:
  "interactions (Tree_new 2 3) [1, 2, 1, 2] ! 1 = []
   \<and> interactions (Tree_new 2 3) [1, 2, 1, 2] ! 2 = [GainItem 2 1]
   \<and> interactions (Tree_new 2 3) [1, 2, 1, 2] ! 3 = [GainItem 2 2]"
proof -
  have l: "(1::nat) < length [1, 2, 1, 2::int]" "(2::nat) < length [1, 2, 1, 2::int]"
    "(3::nat) < length [1, 2, 1, 2::int]" by simp_all
  show ?thesis
    using onInteraction_grants_from_dth [OF l(1), of "Tree_new 2 3"]
      onInteraction_grants_from_dth [OF l(2), of "Tree_new 2 3"]
      onInteraction_grants_from_dth [OF l(3), of "Tree_new 2 3"]
    by (simp add: Tree_new_def)
qed

section \<open>Draining the input queues\<close>

lemma drainQueues_fst: "fst (drainQueues qs w) = map (\<lambda>q. (fst q, [])) qs"
  by (induction qs arbitrary: w) (auto simp: Let_def)

lemma drainQueues_snd:
  "snd (drainQueues qs w) = foldl (\<lambda>w cmd. cmd w) w (concat (map snd qs))"
  by (induction qs arbitrary: w) (auto simp: Let_def processInput_def)

lemma concat_drained: "concat (map snd (map (\<lambda>q. (fst q, [])) qs)) = []"
  by (induction qs) simp_all

lemma step_fields:
  "playerInputQueues (step World dt s) = map (\<lambda>q. (fst q, [])) (playerInputQueues s)"
  "world (step World dt s) =
     World_step World dt (foldl (\<lambda>w cmd. cmd w) (World_incStepCount World (world s))
       (concat (map snd (playerInputQueues s))))"
  by (simp_all add: step_def Let_def drainQueues_fst drainQueues_snd)

lemma step_frame:
  "connectedPlayers (step World dt s) = connectedPlayers s"
  "effects (step World dt s) = effects s"
  "outgoingBuffer (step World dt s) = outgoingBuffer s"
  "gameTick (step World dt s) = gameTick s"
  by (simp_all add: step_def Let_def)

text \<open>\<^verbatim>\<open>queueInputForPlayer\<close> appends to the end of the player's queue.\<close>

lemma Map_get_Map_set: "Map_get (Map_set k v m) k = Some v"
  by (induction m) (auto simp: Map_get_def)

lemma queueInputForPlayer_appends:
  "Map_get (playerInputQueues s) pid = Some queue \<Longrightarrow>
   \<exists>s'. queueInputForPlayer cmd pid s = Inr s'
     \<and> Map_get (playerInputQueues s') pid = Some (queue @ [cmd])"
  by (simp add: queueInputForPlayer_def Map_get_Map_set)

text \<open>
  C3. One \<open>step\<close> leaves every input queue empty (each player keeps its queue), and
  the world it hands to \<open>World.step\<close> is the world after the pending commands, each
  queue's commands in their enqueue order, the queues in the order of the map; a second
  \<open>step\<close> with nothing enqueued in between applies no command.
\<close>

theorem step_drains_queues:
  "playerInputQueues (step World dt s) = map (\<lambda>q. (fst q, [])) (playerInputQueues s)
   \<and> world (step World dt s) =
       World_step World dt (foldl (\<lambda>w cmd. cmd w) (World_incStepCount World (world s))
         (concat (map snd (playerInputQueues s))))
   \<and> world (step World dt' (step World dt s)) =
       World_step World dt' (World_incStepCount World (world (step World dt s)))"
  unfolding step_fields concat_drained by simp

lemma serverA_eq:
  "serverA = (Server_new defaultConfig (0, []))
     \<lparr>connectedPlayers := [(''sockA'', \<lparr>player_state = ''new'', playerId = 1\<rparr>)],
      playerInputQueues := [(1, [])], lastPlayerID := 1,
      socketIdleTimeout := [(''sockA'', 0)],
      pendingTimeouts := [\<lparr>timeout_handle = 0, timeout_socket = ''sockA'', timeout_delay = 40000\<rparr>],
      nextTimeoutHandle := 1,
      effects := [SocketEmit_initWorld ''sockA'' 1, SocketBroadcast_playerEvent ''sockA'',
        WorldEmit_playerSpawn]\<rparr>"
  by (simp add: serverA_def onPlayerConnected_def onPlayerJoinWorld_def resetIdleTimeout_def
      Server_new_def defaultConfig_def js_or_def Let_def Map_get_def traceOps_def)

theorem step_drains_queues_witness:
  "playerInputQueues (step traceOps 16
      (serverA\<lparr>playerInputQueues := [(1, [traceCmd ''a'', traceCmd ''b'']), (2, [traceCmd ''c''])]\<rparr>))
     = [(1, []), (2, [])]
   \<and> world (step traceOps 16
      (serverA\<lparr>playerInputQueues := [(1, [traceCmd ''a'', traceCmd ''b'']), (2, [traceCmd ''c''])]\<rparr>))
     = (1, [''a'', ''b'', ''c''])
   \<and> world (step traceOps 17 (step traceOps 16
      (serverA\<lparr>playerInputQueues := [(1, [traceCmd ''a'', traceCmd ''b'']), (2, [traceCmd ''c''])]\<rparr>)))
     = (2, [''a'', ''b'', ''c''])"
  using step_drains_queues [of traceOps 16
      "serverA\<lparr>playerInputQueues := [(1, [traceCmd ''a'', traceCmd ''b'']), (2, [traceCmd ''c''])]\<rparr>" 17]
  by (simp add: serverA_eq Server_new_def traceOps_def traceCmd_def)

section \<open>Inbound commands and the idle timeout\<close>

lemma resetIdleTimeout_frame:
  "connectedPlayers (resetIdleTimeout socket s) = connectedPlayers s"
  "playerInputQueues (resetIdleTimeout socket s) = playerInputQueues s"
  "world (resetIdleTimeout socket s) = world s"
  "lastPlayerID (resetIdleTimeout socket s) = lastPlayerID s"
  "gameTick (resetIdleTimeout socket s) = gameTick s"
  "outgoingBuffer (resetIdleTimeout socket s) = outgoingBuffer s"
  "effects (resetIdleTimeout socket s) = effects s"
  "timeoutInterval (resetIdleTimeout socket s) = timeoutInterval s"
  by (simp_all add: resetIdleTimeout_def Let_def split: option.splits)

text \<open>
  C4, as stated, fails: an envelope of the unknown type 9 from the connected client
  \<open>sockA\<close> changes state besides the log. \<open>onReceivedInput\<close> calls
  \<open>resetIdleTimeout\<close> before it looks at the type, so the client's pending idle timeout
  (handle 0) is cleared and a new one (handle 1) is scheduled and stored on the socket.
\<close>

theorem unknown_type_envelope_resets_idle_timeout:
  "onReceivedInput traceOps Commands1234 traceFactory \<lparr>cmd_type = JNumber 9, cmd_params = ''x''\<rparr>
     ''sockA'' 1 serverA =
   Inr (serverA\<lparr>socketIdleTimeout := [(''sockA'', 1)],
        pendingTimeouts := [\<lparr>timeout_handle = 1, timeout_socket = ''sockA'', timeout_delay = 40000\<rparr>],
        nextTimeoutHandle := 2,
        effects := effects serverA @ [LoggerError_InvalidCommand (JNumber 9)]\<rparr>)
   \<and> socketIdleTimeout serverA = [(''sockA'', 0)]
   \<and> pendingTimeouts serverA = [\<lparr>timeout_handle = 0, timeout_socket = ''sockA'', timeout_delay = 40000\<rparr>]"
  by (simp add: serverA_eq onReceivedInput_def Commands1234_def Let_def resetIdleTimeout_def
      Map_get_def Server_new_def defaultConfig_def js_or_def traceOps_def)

text \<open>
  C4, amended. For an envelope whose type is none of the four command types,
  \<open>onReceivedInput\<close> returns normally, logs the error and enqueues nothing: the
  result is the state after \<open>resetIdleTimeout\<close> for the sending socket with the error
  appended to the log; the input queues, the connected players (the connection stays
  registered), the world, the last player id, the tick and the outgoing buffer are
  unchanged. The only other change is the reset of the sender's idle timeout.
\<close>

theorem onReceivedInput_unknown_type:
  assumes "cmd_type cmd \<noteq> MOVEMENT Commands" and "cmd_type cmd \<noteq> ALTER_TILE Commands"
    and "cmd_type cmd \<noteq> COMMUNICATION Commands" and "cmd_type cmd \<noteq> INTERACTION Commands"
  shows "\<exists>r. onReceivedInput World Commands CommandFactory cmd socket pid s = Inr r
    \<and> r = (resetIdleTimeout socket s)
          \<lparr>effects := effects s @ [LoggerError_InvalidCommand (cmd_type cmd)]\<rparr>
    \<and> playerInputQueues r = playerInputQueues s
    \<and> connectedPlayers r = connectedPlayers s
    \<and> world r = world s
    \<and> lastPlayerID r = lastPlayerID s
    \<and> gameTick r = gameTick s
    \<and> outgoingBuffer r = outgoingBuffer s"
  using assms by (simp add: onReceivedInput_def Let_def resetIdleTimeout_frame)

theorem onReceivedInput_unknown_type_witness:
  "\<exists>r. onReceivedInput traceOps Commands1234 traceFactory
       \<lparr>cmd_type = JString ''jump'', cmd_params = ''x''\<rparr> ''sockA'' 1 serverA = Inr r
    \<and> r = (resetIdleTimeout ''sockA'' serverA)
          \<lparr>effects := effects serverA @ [LoggerError_InvalidCommand (JString ''jump'')]\<rparr>
    \<and> playerInputQueues r = [(1, [])]
    \<and> connectedPlayers r = [(''sockA'', \<lparr>player_state = ''new'', playerId = 1\<rparr>)]
    \<and> world r = (0, [])
    \<and> lastPlayerID r = 1
    \<and> gameTick r = 0
    \<and> outgoingBuffer r = []"
  using onReceivedInput_unknown_type [of "\<lparr>cmd_type = JString ''jump'', cmd_params = ''x''\<rparr>"
      Commands1234 traceOps traceFactory "''sockA''" 1 serverA]
  by (simp add: Commands1234_def serverA_eq Server_new_def)

text \<open>With a \<open>timeoutInterval\<close> of zero or less, \<open>resetIdleTimeout\<close> schedules nothing.\<close>

lemma resetIdleTimeout_disabled:
  "timeoutInterval s \<le> 0 \<Longrightarrow>
   set (pendingTimeouts (resetIdleTimeout socket s)) \<subseteq> set (pendingTimeouts s)
   \<and> socketIdleTimeout (resetIdleTimeout socket s) = socketIdleTimeout s"
  by (auto simp: resetIdleTimeout_def Let_def split: option.splits)

text \<open>A negative configured value reaches the field as it is.\<close>

lemma Server_new_negative_timeout:
  "TIMEOUT_INTERVAL ServerConfig = Some n \<Longrightarrow> n < 0 \<Longrightarrow>
   timeoutInterval (Server_new ServerConfig w) = n"
  by (simp add: Server_new_def js_or_def)

text \<open>
  C5. The claim: a configured idle timeout of zero or less disables the timeout. With
  \<open>TIMEOUT_INTERVAL = 0\<close> the constructor's \<^verbatim>\<open>ServerConfig.TIMEOUT_INTERVAL || 40\<close>
  makes the interval 40, and \<open>resetIdleTimeout\<close> schedules a timeout of 40000 ms.
\<close>

theorem zero_timeout_config_schedules_timeout:
  "timeoutInterval (Server_new (defaultConfig\<lparr>TIMEOUT_INTERVAL := Some 0\<rparr>)
      (0::int, []::string list)) = 40
   \<and> pendingTimeouts (resetIdleTimeout ''sockA''
        (Server_new (defaultConfig\<lparr>TIMEOUT_INTERVAL := Some 0\<rparr>) (0::int, []::string list)))
      = [\<lparr>timeout_handle = 0, timeout_socket = ''sockA'', timeout_delay = 40000\<rparr>]"
  by (simp add: Server_new_def defaultConfig_def js_or_def resetIdleTimeout_def Map_get_def)

section \<open>Broadcasts\<close>

text \<open>A tick with a client connected queues one payload and flushes the buffer at once.\<close>

lemma start_onInterval_live:
  "connectedPlayers s \<noteq> [] \<Longrightarrow>
   effects (start_onInterval World timeNow s) =
     effects s @ [IoEmit_update (outgoingBuffer s @
       [\<lparr>payload_t = gameTick s,
         payload_d = describeAll_players World
           (world (step World (timeNow - lastServerTime s) s))\<rparr>])]
   \<and> outgoingBuffer (start_onInterval World timeNow s) = []
   \<and> gameTick (start_onInterval World timeNow s) = gameTick s + 1"
  by (simp add: start_onInterval_def Let_def step_frame sendOutgoingBuffer_def)

text \<open>A tick with no client connected queues and emits nothing.\<close>

lemma start_onInterval_idle:
  "connectedPlayers s = [] \<Longrightarrow>
   effects (start_onInterval World timeNow s) = effects s
   \<and> outgoingBuffer (start_onInterval World timeNow s) = outgoingBuffer s"
  by (simp add: start_onInterval_def Let_def step_frame)

text \<open>
  C8. The claim: the outgoing buffer is flushed at most every other tick. With one
  client connected, the ticks at 16 ms and 32 ms each emit an \<open>update\<close>, of one
  payload: the flush happens on two consecutive ticks.
\<close>

theorem updates_on_consecutive_ticks:
  "connectedPlayers serverA \<noteq> []
   \<and> emittedUpdates (effects (ticks traceOps [16] (start 0 serverA)))
     = [[\<lparr>payload_t = 0, payload_d = ''players''\<rparr>]]
   \<and> emittedUpdates (effects (ticks traceOps [16, 32] (start 0 serverA)))
     = [[\<lparr>payload_t = 0, payload_d = ''players''\<rparr>], [\<lparr>payload_t = 1, payload_d = ''players''\<rparr>]]"
  by (simp add: serverA_eq start_def start_onInterval_def step_def Let_def sendOutgoingBuffer_def
      Server_new_def defaultConfig_def js_or_def traceOps_def)

section \<open>Player ids\<close>

lemma onPlayerConnected_fields:
  "lastPlayerID (onPlayerConnected World socket newXY s) = lastPlayerID s + 1"
  "effects (onPlayerConnected World socket newXY s) =
     effects s @ [SocketEmit_initWorld socket (lastPlayerID s + 1),
       SocketBroadcast_playerEvent socket, WorldEmit_playerSpawn]"
  by (simp_all add: onPlayerConnected_def onPlayerJoinWorld_def Let_def resetIdleTimeout_frame)

lemma assignedIds_append: "assignedIds (fx @ gx) = assignedIds fx @ assignedIds gx"
  by (induction fx rule: assignedIds.induct) simp_all

lemma onDisconnect_fields:
  "lastPlayerID (onDisconnect World socket s) = lastPlayerID s"
  "assignedIds (effects (onDisconnect World socket s)) = assignedIds (effects s)"
  by (simp_all add: onDisconnect_def onPlayerDisconnected_def Let_def assignedIds_append
      split: option.splits)

lemma run_events_ids:
  "lastPlayerID (run_events World evs s) = lastPlayerID s + int (connections evs)
   \<and> assignedIds (effects (run_events World evs s)) =
       assignedIds (effects s) @ [lastPlayerID s + 1 .. lastPlayerID s + int (connections evs)]"
proof (induction evs arbitrary: s)
  case Nil
  then show ?case by simp
next
  case (Cons ev evs)
  show ?case
  proof (cases ev)
    case (Connect socket newXY)
    have "[lastPlayerID s + 1 .. lastPlayerID s + int (Suc (connections evs))]
        = (lastPlayerID s + 1) #
            [lastPlayerID s + 1 + 1 .. lastPlayerID s + 1 + int (connections evs)]"
      by (subst upto_rec1) (simp_all add: add.commute add.left_commute)
    then show ?thesis
      using Cons.IH [of "onPlayerConnected World socket newXY s"] Connect
      by (simp add: onPlayerConnected_fields assignedIds_append)
  next
    case (Disconnect socket)
    then show ?thesis
      using Cons.IH [of "onDisconnect World socket s"]
      by (simp add: onDisconnect_fields)
  qed
qed

text \<open>
  C9. In a server run from construction, through any sequence of connections and
  disconnections, the ids sent to the connecting clients are \<open>1, 2, \<dots>, n\<close> in order,
  \<open>n\<close> the number of connections: the \<open>n\<close>-th connection gets the id \<open>n\<close>, the first
  the id 1, and no id is given twice.
\<close>

theorem assigned_ids_count_up:
  "assignedIds (effects (run_events World evs (Server_new ServerConfig w)))
     = [1 .. int (connections evs)]"
  using run_events_ids [of World evs "Server_new ServerConfig w"]
  by (simp add: Server_new_def)

theorem assigned_ids_count_up_witness:
  "assignedIds (effects (run_events traceOps
      [Connect ''sockA'' (0, 0), Connect ''sockB'' (1, 0), Disconnect ''sockA'',
       Connect ''sockC'' (0, 0)]
      (Server_new defaultConfig (0, []))))
     = [1, 2, 3]"
proof -
  have "[1 .. int (connections [Connect ''sockA'' (0, 0), Connect ''sockB'' (1, 0),
      Disconnect ''sockA'', Connect ''sockC'' (0, 0)])] = [1, 2, 3]"
    by (simp add: upto_rec1)
  then show ?thesis
    using assigned_ids_count_up [of traceOps
        "[Connect ''sockA'' (0, 0), Connect ''sockB'' (1, 0), Disconnect ''sockA'',
          Connect ''sockC'' (0, 0)]" defaultConfig "(0, [])"]
    by simp
qed

end
